theory Spec2Isabelle
  imports Main
begin

section \<open>Strings and regular expressions of the host language\<close>

text \<open>
  The extension is TypeScript. A string of the program is modelled as a HOL \<open>string\<close>:
  a list of code units, here the code units below 256. The two regular expressions of
  \<^verbatim>\<open>extension.ts\<close> are kept as syntax trees and run by a backtracking matcher that
  returns its successes in the order in which the engine of the language tries them, so
  that the first element of the list is the match the program sees.

  A dot matches every character but a line terminator; below 256 these are the line feed
  and the carriage return. A negated class matches every character outside its list.
  Neither expression has a flag, so \<open>^\<close> holds at index 0 only and \<open>$\<close> at the end of
  the input only. A greedy quantifier tries the longest run first, a lazy one the
  shortest, and an optional group tries its body before it tries to skip it.
\<close>

datatype cls =
    Lit char
  | AnyChar
  | NoneOf "char list"

fun lineTerminator :: "char \<Rightarrow> bool" where
  "lineTerminator c = (c = CHR 0x0A \<or> c = CHR 0x0D)"

fun accepts :: "cls \<Rightarrow> char \<Rightarrow> bool" where
  "accepts (Lit a) c = (c = a)"
| "accepts AnyChar c = (\<not> lineTerminator c)"
| "accepts (NoneOf as) c = (c \<notin> set as)"

datatype regex =
    Eps
  | One cls
  | Bol
  | Eol
  | Seq regex regex
  | Opt regex
  | PlusGreedy cls
  | PlusLazy cls
  | Named string regex

type_synonym groups = "(string \<times> string) list"

text \<open>A matcher state: the index reached, the input still to read, the groups captured.\<close>

type_synonym mstate = "nat \<times> string \<times> groups"

fun plusGreedy :: "cls \<Rightarrow> mstate \<Rightarrow> mstate list" where
  "plusGreedy c (i, [], g) = []"
| "plusGreedy c (i, x # xs, g) =
     (if accepts c x then plusGreedy c (Suc i, xs, g) @ [(Suc i, xs, g)] else [])"

fun plusLazy :: "cls \<Rightarrow> mstate \<Rightarrow> mstate list" where
  "plusLazy c (i, [], g) = []"
| "plusLazy c (i, x # xs, g) =
     (if accepts c x then (Suc i, xs, g) # plusLazy c (Suc i, xs, g) else [])"

fun capture :: "string \<Rightarrow> mstate \<Rightarrow> mstate \<Rightarrow> mstate" where
  "capture n (i, s, g) (j, t, h) = (j, t, (n, take (j - i) s) # h)"

fun rmatch :: "regex \<Rightarrow> mstate \<Rightarrow> mstate list" where
  "rmatch Eps st = [st]"
| "rmatch (One c) (i, [], g) = []"
| "rmatch (One c) (i, x # xs, g) = (if accepts c x then [(Suc i, xs, g)] else [])"
| "rmatch Bol (i, s, g) = (if i = 0 then [(i, s, g)] else [])"
| "rmatch Eol (i, s, g) = (if s = [] then [(i, s, g)] else [])"
| "rmatch (Seq r1 r2) st = concat (map (rmatch r2) (rmatch r1 st))"
| "rmatch (Opt r) st = rmatch r st @ [st]"
| "rmatch (PlusGreedy c) st = plusGreedy c st"
| "rmatch (PlusLazy c) st = plusLazy c st"
| "rmatch (Named n r) st = map (capture n st) (rmatch r st)"

text \<open>A literal word and a sequence of expressions.\<close>

definition lit :: "string \<Rightarrow> regex" where
  "lit w = foldr (\<lambda>c r. Seq (One (Lit c)) r) w Eps"

definition seq :: "regex list \<Rightarrow> regex" where
  "seq rs = foldr Seq rs Eps"

text \<open>
  \<^verbatim>\<open>String.prototype.match\<close> with an expression without the global flag: the match is
  tried at index 0, then at each later index up to the length of the input, and the
  first success gives the named groups.
\<close>

fun regExpExec :: "regex \<Rightarrow> nat \<Rightarrow> string \<Rightarrow> groups option" where
  "regExpExec r i [] = (case rmatch r (i, [], []) of [] \<Rightarrow> None | (j, t, g) # _ \<Rightarrow> Some g)"
| "regExpExec r i (x # xs) =
     (case rmatch r (i, x # xs, []) of
        [] \<Rightarrow> regExpExec r (Suc i) xs
      | (j, t, g) # _ \<Rightarrow> Some g)"

definition stringMatch :: "string \<Rightarrow> regex \<Rightarrow> groups option" where
  "stringMatch s r = regExpExec r 0 s"

section \<open>The data of the extension\<close>

record RepositoryName =
  organization :: string
  repository :: string

text \<open>
  The two patterns of the source, character by character. The dot of \<^verbatim>\<open>github.com\<close>
  and the dot of \<^verbatim>\<open>(?:.git)?\<close> are written without escape there, so both are
  \<open>AnyChar\<close> here.
\<close>

definition GITHUB_REMOTE_SSH_REGEX :: regex where
  "GITHUB_REMOTE_SSH_REGEX =
     seq [Bol, Opt (lit ''ssh://''), lit ''git@github'', One AnyChar, lit ''com:'',
          Named ''organization'' (PlusGreedy (NoneOf ''/'')), lit ''/'',
          Named ''repository'' (PlusLazy AnyChar),
          Opt (seq [One AnyChar, lit ''git'']), Eol]"

definition GITHUB_REMOTE_HTTP_REGEX :: regex where
  "GITHUB_REMOTE_HTTP_REGEX =
     seq [Bol, lit ''http'', Opt (lit ''s''), lit ''://github'', One AnyChar, lit ''com/'',
          Named ''organization'' (PlusGreedy (NoneOf ''/'')), lit ''/'',
          Named ''repository'' (PlusLazy AnyChar),
          Opt (seq [One AnyChar, lit ''git'']), Eol]"

text \<open>
  \<^verbatim>\<open>undefined\<close> is \<open>None\<close>. Both patterns bind both groups in every match, so the
  last branch, a match without one of the groups, is never taken.
\<close>

definition parseGithubUrl :: "string option \<Rightarrow> RepositoryName option" where
  "parseGithubUrl url =
     (case url of
        None \<Rightarrow> None
      | Some u \<Rightarrow>
          (case (case stringMatch u GITHUB_REMOTE_SSH_REGEX of
                   Some m \<Rightarrow> Some m
                 | None \<Rightarrow> stringMatch u GITHUB_REMOTE_HTTP_REGEX) of
             None \<Rightarrow> None
           | Some m \<Rightarrow>
               (case (map_of m ''organization'', map_of m ''repository'') of
                  (Some org, Some repo) \<Rightarrow> Some \<lparr>organization = org, repository = repo\<rparr>
                | _ \<Rightarrow> None)))"

text \<open>
  The objects of the editor and of its Git extension, with the fields the program reads.
  \<open>fsPath\<close> and \<open>toString\<close> hold what the getter and the method of the same name
  return. A line number is a natural number.
\<close>

record Uri =
  scheme :: string
  authority :: string
  path :: string
  query :: string
  fragment :: string
  fsPath :: string
  toString :: string

record Remote =
  name :: string
  fetchUrl :: "string option"
  pushUrl :: "string option"

record Change =
  uri :: Uri

record Branch =
  commit :: "string option"

record RepositoryState =
  remotes :: "Remote list"
  workingTreeChanges :: "Change list"
  HEAD :: "Branch option"

record Repository =
  rootUri :: Uri
  state :: RepositoryState

record API =
  getRepository :: "Uri \<Rightarrow> Repository option"

record RepositoryInfo = RepositoryName +
  info_rootUri :: Uri
  info_state :: RepositoryState

record SelectionInfo =
  fileUri :: Uri
  startLine :: nat
  endLine :: nat
  isSingleLine :: bool

datatype error = GetPermalinkError string

definition failIfUndefined :: "'a option \<Rightarrow> string \<Rightarrow> error + 'a" where
  "failIfUndefined v failureMessage =
     (case v of None \<Rightarrow> Inl (GetPermalinkError failureMessage) | Some x \<Rightarrow> Inr x)"

definition failIfNull :: "'a option \<Rightarrow> string \<Rightarrow> error + 'a" where
  "failIfNull v failureMessage =
     (case v of None \<Rightarrow> Inl (GetPermalinkError failureMessage) | Some x \<Rightarrow> Inr x)"

text \<open>The four failures of the resolver, each the error of the source with its message.\<close>

definition NoRepositoryFound :: "Uri \<Rightarrow> error" where
  "NoRepositoryFound f =
     GetPermalinkError (''No matching repository found for file '' @ toString f)"

definition NoGitHubRemote :: error where
  "NoGitHubRemote = GetPermalinkError ''No GitHub origins found for matching repository''"

definition FileModified :: "Uri \<Rightarrow> error" where
  "FileModified f =
     GetPermalinkError
       (''Can't copy permalink because file '' @ path f @ '' has been modified'')"

definition NoCommitHash :: error where
  "NoCommitHash =
     GetPermalinkError ''Couldn't determine commit sha for HEAD''"

section \<open>Repository resolution\<close>

text \<open>The loop over the remotes of \<^verbatim>\<open>getRepositoryInfo\<close>: it returns at the first remote
  that parses and throws after the last one.\<close>

fun remotesLoop :: "Repository \<Rightarrow> Remote list \<Rightarrow> error + RepositoryInfo" where
  "remotesLoop repo [] = Inl NoGitHubRemote"
| "remotesLoop repo (remote # rest) =
     (case parseGithubUrl (case fetchUrl remote of Some u \<Rightarrow> Some u | None \<Rightarrow> pushUrl remote) of
        Some repositoryName \<Rightarrow>
          Inr \<lparr>organization = organization repositoryName,
               repository = repository repositoryName,
               info_rootUri = rootUri repo,
               info_state = state repo\<rparr>
      | None \<Rightarrow> remotesLoop repo rest)"

definition getRepositoryInfo :: "API \<Rightarrow> Uri \<Rightarrow> error + RepositoryInfo" where
  "getRepositoryInfo git f =
     (case failIfNull (getRepository git f)
             (''No matching repository found for file '' @ toString f) of
        Inl e \<Rightarrow> Inl e
      | Inr repo \<Rightarrow> remotesLoop repo (remotes (state repo)))"

section \<open>Line anchor, commit hash, dirty-file guard\<close>

text \<open>The template literal renders a line number, a natural number far below \<open>2^53\<close>,
  in decimal.\<close>

function numberToString :: "nat \<Rightarrow> string" where
  "numberToString n =
     (if n < 10 then [''0123456789'' ! n]
      else numberToString (n div 10) @ [''0123456789'' ! (n mod 10)])"
  by pat_completeness auto
termination
  by (relation "measure id") auto

declare numberToString.simps [simp del]

definition getLineAnchor :: "SelectionInfo \<Rightarrow> string" where
  "getLineAnchor selection =
     (if isSingleLine selection
      then ''L'' @ numberToString (startLine selection + 1)
      else ''L'' @ numberToString (startLine selection + 1) @ ''-L''
             @ numberToString (endLine selection + 1))"

definition getCommitHash :: "RepositoryState \<Rightarrow> error + string" where
  "getCommitHash repositoryState =
     failIfUndefined (case HEAD repositoryState of None \<Rightarrow> None | Some b \<Rightarrow> commit b)
       ''Couldn't determine commit sha for HEAD''"

text \<open>The \<^verbatim>\<open>forEach\<close> of \<^verbatim>\<open>failIfChangedFile\<close>: the throw in the callback leaves the
  loop at the first change with the path of the file.\<close>

fun changesLoop :: "Change list \<Rightarrow> Uri \<Rightarrow> error + unit" where
  "changesLoop [] f = Inr ()"
| "changesLoop (change # rest) f =
     (if path (uri change) = path f
      then Inl (GetPermalinkError
                  (''Can't copy permalink because file '' @ path f
                     @ '' has been modified''))
      else changesLoop rest f)"

definition failIfChangedFile :: "RepositoryState \<Rightarrow> Uri \<Rightarrow> error + unit" where
  "failIfChangedFile repositoryState f = changesLoop (workingTreeChanges repositoryState) f"

section \<open>The URL object of the platform\<close>

text \<open>
  \<^verbatim>\<open>URL\<close> is the class of the URL Standard. The program builds
  \<^verbatim>\<open>new URL("https://github.com")\<close>, assigns \<^verbatim>\<open>pathname\<close> and \<^verbatim>\<open>hash\<close>, and
  the command serialises the object. The record holds the components those three steps
  touch; the query and the port of this URL are null throughout.

  Both setters run the basic URL parser with a state override. It first removes every tab
  and newline from the value. In the path state of a special scheme such as \<^verbatim>\<open>https\<close>,
  a slash or a backslash ends the segment in the buffer, dot segments are resolved, and
  every other character is appended after percent-encoding with the path percent-encode
  set. In the fragment state every character is appended after percent-encoding with the
  fragment percent-encode set. A code unit from 128 to 255 stands for the code point of
  that number and is encoded as its two UTF-8 bytes.

  The path percent-encode set is that of the URL class the extension runs on: the
  controls, the code units above \<open>~\<close>, the space and the characters
  \<^verbatim>\<open>" # < > ? ` { }\<close>. It leaves the circumflex as it is. A dot segment is \<open>.\<close> or
  \<open>..\<close>, also with \<open>%2e\<close> or \<open>%2E\<close> in the place of a dot.
\<close>

record URL =
  url_scheme :: string
  url_host :: string
  url_path :: "string list"
  url_fragment :: "string option"

definition code :: "char \<Rightarrow> nat" where
  "code c = of_char c"

definition percentEncodeByte :: "nat \<Rightarrow> string" where
  "percentEncodeByte b =
     [CHR ''%'', ''0123456789ABCDEF'' ! (b div 16), ''0123456789ABCDEF'' ! (b mod 16)]"

definition utf8Bytes :: "char \<Rightarrow> nat list" where
  "utf8Bytes c = (if code c < 128 then [code c] else [192 + code c div 64, 128 + code c mod 64])"

definition utf8PercentEncode :: "(char \<Rightarrow> bool) \<Rightarrow> char \<Rightarrow> string" where
  "utf8PercentEncode encodeSet c =
     (if encodeSet c then concat (map percentEncodeByte (utf8Bytes c)) else [c])"

definition c0ControlPercentEncodeSet :: "char \<Rightarrow> bool" where
  "c0ControlPercentEncodeSet c = (code c \<le> 0x1F \<or> 0x7E < code c)"

definition fragmentPercentEncodeSet :: "char \<Rightarrow> bool" where
  "fragmentPercentEncodeSet c =
     (c0ControlPercentEncodeSet c \<or> c \<in> set [CHR 0x20, CHR 0x22, CHR 0x3C, CHR 0x3E, CHR 0x60])"

definition queryPercentEncodeSet :: "char \<Rightarrow> bool" where
  "queryPercentEncodeSet c =
     (c0ControlPercentEncodeSet c \<or> c \<in> set [CHR 0x20, CHR 0x22, CHR 0x23, CHR 0x3C, CHR 0x3E])"

definition pathPercentEncodeSet :: "char \<Rightarrow> bool" where
  "pathPercentEncodeSet c =
     (queryPercentEncodeSet c \<or> c \<in> set [CHR 0x3F, CHR 0x60, CHR 0x7B, CHR 0x7D])"

definition asciiLowercase :: "char \<Rightarrow> char" where
  "asciiLowercase c = (if 0x41 \<le> code c \<and> code c \<le> 0x5A then char_of (code c + 0x20) else c)"

definition singleDotSegment :: "string \<Rightarrow> bool" where
  "singleDotSegment b = (b = ''.'' \<or> map asciiLowercase b = ''%2e'')"

definition doubleDotSegment :: "string \<Rightarrow> bool" where
  "doubleDotSegment b =
     (b = ''..'' \<or> map asciiLowercase b \<in> set [''.%2e'', ''%2e.'', ''%2e%2e''])"

definition removeTabNewline :: "string \<Rightarrow> string" where
  "removeTabNewline v = filter (\<lambda>c. c \<notin> set [CHR 0x09, CHR 0x0A, CHR 0x0D]) v"

text \<open>The end of a segment in the path state; \<open>delim\<close> tells whether a slash or a
  backslash ended it (otherwise the input ended).\<close>

definition endSegment :: "bool \<Rightarrow> string \<Rightarrow> string list \<Rightarrow> string list" where
  "endSegment delim buffer p =
     (if doubleDotSegment buffer then (if delim then butlast p else butlast p @ [[]])
      else if singleDotSegment buffer then (if delim then p else p @ [[]])
      else p @ [buffer])"

fun pathState :: "string \<Rightarrow> string \<Rightarrow> string list \<Rightarrow> string list" where
  "pathState [] buffer p = endSegment False buffer p"
| "pathState (c # cs) buffer p =
     (if c = CHR ''/'' \<or> c = CHR 0x5C then pathState cs [] (endSegment True buffer p)
      else pathState cs (buffer @ utf8PercentEncode pathPercentEncodeSet c) p)"

fun pathStartState :: "string \<Rightarrow> string list" where
  "pathStartState [] = pathState [] [] []"
| "pathStartState (c # cs) =
     (if c = CHR ''/'' \<or> c = CHR 0x5C then pathState cs [] [] else pathState (c # cs) [] [])"

definition newURL_github :: URL where
  "newURL_github =
     \<lparr>url_scheme = ''https'', url_host = ''github.com'', url_path = [[]], url_fragment = None\<rparr>"

definition setPathname :: "URL \<Rightarrow> string \<Rightarrow> URL" where
  "setPathname url v = url\<lparr>url_path := pathStartState (removeTabNewline v)\<rparr>"

definition setHash :: "URL \<Rightarrow> string \<Rightarrow> URL" where
  "setHash url v =
     (if v = [] then url\<lparr>url_fragment := None\<rparr>
      else url\<lparr>url_fragment :=
                 Some (concat (map (utf8PercentEncode fragmentPercentEncodeSet)
                         (removeTabNewline (if hd v = CHR ''#'' then tl v else v))))\<rparr>)"

definition href :: "URL \<Rightarrow> string" where
  "href url =
     url_scheme url @ ''://'' @ url_host url @ concat (map (\<lambda>s. ''/'' @ s) (url_path url))
       @ (case url_fragment url of None \<Rightarrow> [] | Some f \<Rightarrow> ''#'' @ f)"

section \<open>The permalink\<close>

text \<open>
  \<^verbatim>\<open>path.sep\<close> and \<^verbatim>\<open>path.relative\<close> belong to the platform: the separator is a
  slash or a backslash, and \<open>relative\<close> is taken as it comes. \<open>split\<close> and \<open>join\<close>
  are \<^verbatim>\<open>String.prototype.split\<close> with a separator of one character and
  \<^verbatim>\<open>Array.prototype.join\<close>.
\<close>

record NodePath =
  sep :: char
  relative :: "string \<Rightarrow> string \<Rightarrow> string"

fun split :: "char \<Rightarrow> string \<Rightarrow> string list" where
  "split s [] = [[]]"
| "split s (c # cs) =
     (if c = s then [] # split s cs
      else (case split s cs of [] \<Rightarrow> [[c]] | w # ws \<Rightarrow> (c # w) # ws))"

fun join :: "string \<Rightarrow> string list \<Rightarrow> string" where
  "join s [] = []"
| "join s [x] = x"
| "join s (x # y # ys) = x @ s @ join s (y # ys)"

definition getLinkForSelection :: "NodePath \<Rightarrow> API \<Rightarrow> SelectionInfo \<Rightarrow> error + URL" where
  "getLinkForSelection np git selection =
     (case getRepositoryInfo git (fileUri selection) of
        Inl e \<Rightarrow> Inl e
      | Inr repositoryInfo \<Rightarrow>
          (case failIfChangedFile (info_state repositoryInfo) (fileUri selection) of
             Inl e \<Rightarrow> Inl e
           | Inr _ \<Rightarrow>
               (let relativePath =
                      relative np (fsPath (info_rootUri repositoryInfo)) (fsPath (fileUri selection))
                in case getCommitHash (info_state repositoryInfo) of
                     Inl e \<Rightarrow> Inl e
                   | Inr commitHash \<Rightarrow>
                       (let tokenizedRelativePath = split (sep np) relativePath;
                            uriPathTokens =
                              [organization repositoryInfo, repository repositoryInfo,
                               ''blob'', commitHash] @ tokenizedRelativePath;
                            url = newURL_github;
                            url = setPathname url (''/'' @ join ''/'' uriPathTokens);
                            url = setHash url (getLineAnchor selection)
                        in Inr url))))"

section \<open>Closed forms and example data\<close>

text \<open>The same repository with another \<^verbatim>\<open>HEAD\<close>.\<close>

definition withHEAD :: "Branch option \<Rightarrow> API \<Rightarrow> API" where
  "withHEAD h git =
     \<lparr>getRepository =
        (\<lambda>f. case getRepository git f of
               None \<Rightarrow> None
             | Some r \<Rightarrow> Some (r\<lparr>state := (state r)\<lparr>HEAD := h\<rparr>\<rparr>))\<rparr>"

text \<open>Example data: a file URI of a path, a repository rooted at \<^verbatim>\<open>/repo\<close>, and the
  relative path of a file below a root without trailing separator.\<close>

definition exampleFile :: "string \<Rightarrow> Uri" where
  "exampleFile p =
     \<lparr>scheme = ''file'', authority = [], path = p, query = [], fragment = [],
      fsPath = p, toString = ''file://'' @ p\<rparr>"

definition exampleRemote :: "string option \<Rightarrow> string option \<Rightarrow> Remote" where
  "exampleRemote f p = \<lparr>name = ''origin'', fetchUrl = f, pushUrl = p\<rparr>"

definition exampleRepository :: "Remote list \<Rightarrow> Change list \<Rightarrow> Branch option \<Rightarrow> Repository" where
  "exampleRepository rs cs h =
     \<lparr>rootUri = exampleFile ''/repo'',
      state = \<lparr>remotes = rs, workingTreeChanges = cs, HEAD = h\<rparr>\<rparr>"

definition exampleGit :: "Remote list \<Rightarrow> Change list \<Rightarrow> Branch option \<Rightarrow> API" where
  "exampleGit rs cs h = \<lparr>getRepository = (\<lambda>f. Some (exampleRepository rs cs h))\<rparr>"

definition exampleInfo :: "Change list \<Rightarrow> Branch option \<Rightarrow> RepositoryInfo" where
  "exampleInfo cs h =
     \<lparr>organization = ''foo'', repository = ''bar'', info_rootUri = exampleFile ''/repo'',
      info_state =
        \<lparr>remotes = [exampleRemote (Some ''git@github.com:foo/bar.git'') None],
         workingTreeChanges = cs, HEAD = h\<rparr>\<rparr>"

definition exampleSelection :: "string \<Rightarrow> nat \<Rightarrow> nat \<Rightarrow> bool \<Rightarrow> SelectionInfo" where
  "exampleSelection p a b single =
     \<lparr>fileUri = exampleFile p, startLine = a, endLine = b, isSingleLine = single\<rparr>"

definition examplePath :: "char \<Rightarrow> NodePath" where
  "examplePath s = \<lparr>sep = s, relative = (\<lambda>root file. drop (length root + 1) file)\<rparr>"

text \<open>
  Closed forms of the two regular expressions, used in the proofs below: what is left of a
  string after a literal prefix, the text after the host part of each pattern, the split
  at the first slash, and the candidates for the repository group in the order in which
  the lazy quantifier finds them.
\<close>

definition stripPrefix :: "string \<Rightarrow> string \<Rightarrow> string option" where
  "stripPrefix w s = (if take (length w) s = w then Some (drop (length w) s) else None)"



definition afterHost :: "string \<Rightarrow> string \<Rightarrow> string \<Rightarrow> string option" where
  "afterHost a b s =
     (case stripPrefix a s of
        None \<Rightarrow> None
      | Some [] \<Rightarrow> None
      | Some (x # t) \<Rightarrow> if lineTerminator x then None else stripPrefix b t)"


definition sshBody :: "string \<Rightarrow> string option" where
  "sshBody s =
     (case stripPrefix ''ssh://'' s of
        Some t \<Rightarrow> afterHost ''git@github'' ''com:'' t
      | None \<Rightarrow> afterHost ''git@github'' ''com:'' s)"

definition httpBody :: "string \<Rightarrow> string option" where
  "httpBody s =
     (case stripPrefix ''http'' s of
        None \<Rightarrow> None
      | Some t \<Rightarrow>
          (case stripPrefix ''s'' t of
             Some u \<Rightarrow> afterHost ''://github'' ''com/'' u
           | None \<Rightarrow> afterHost ''://github'' ''com/'' t))"




text \<open>
  Closed forms of the URL steps and more example data: a path that the URL object leaves
  as it is, the replacement of backslashes, the serialised path, the path the setter
  stores, and the URL the resolver returns once its three guards have passed.
\<close>

definition plainPath :: "string \<Rightarrow> bool" where
  "plainPath p =
     (list_all (\<lambda>c. \<not> pathPercentEncodeSet c \<and> c \<noteq> CHR 0x5C) p
      \<and> list_all (\<lambda>b. \<not> singleDotSegment b \<and> \<not> doubleDotSegment b) (split CHR ''/'' p))"

definition backslashToSlash :: "char \<Rightarrow> char" where
  "backslashToSlash c = (if c = CHR 0x5C then CHR ''/'' else c)"

definition serializePath :: "string list \<Rightarrow> string" where
  "serializePath p = concat (map (\<lambda>s. ''/'' @ s) p)"

definition urlPathOf :: "string \<Rightarrow> string list" where
  "urlPathOf v = pathStartState (removeTabNewline v)"

definition linkURL :: "NodePath \<Rightarrow> RepositoryInfo \<Rightarrow> string \<Rightarrow> SelectionInfo \<Rightarrow> URL" where
  "linkURL np info h sel =
     \<lparr>url_scheme = ''https'', url_host = ''github.com'',
      url_path = urlPathOf (''/'' @ join ''/''
                  ([organization info, repository info, ''blob'', h]
                   @ split (sep np)
                       (relative np (fsPath (info_rootUri info)) (fsPath (fileUri sel))))),
      url_fragment = Some (getLineAnchor sel)\<rparr>"

definition exampleHead :: "Branch option" where
  "exampleHead = Some \<lparr>commit = Some ''abc123''\<rparr>"

definition exampleURL :: "string list \<Rightarrow> string \<Rightarrow> URL" where
  "exampleURL segs anchor =
     \<lparr>url_scheme = ''https'', url_host = ''github.com'',
      url_path = [''foo'', ''bar'', ''blob'', ''abc123''] @ segs, url_fragment = Some anchor\<rparr>"

definition exampleBackslashFile :: string where
  "exampleBackslashFile = ''/repo/src'' @ [CHR 0x5C] @ ''extension.ts''"

section \<open>The dirty-file guard\<close>

lemmas parse_eval =
  parseGithubUrl_def stringMatch_def GITHUB_REMOTE_SSH_REGEX_def GITHUB_REMOTE_HTTP_REGEX_def
  seq_def lit_def

lemma changesLoop_iff:
  "changesLoop cs f =
     (if \<exists>c\<in>set cs. path (uri c) = path f then Inl (FileModified f) else Inr ())"
  by (induction cs) (auto simp: FileModified_def)

text \<open>
  C9. The guard looks at the path component alone and compares it by string equality: it
  fails exactly when some working-tree change has the path of the file, whatever the
  scheme or the authority of the two URIs. A change whose path is a prefix of the file's
  path, or differs from it in letter case, does not make it fail.
\<close>

theorem dirty_guard_compares_paths_only:
  "failIfChangedFile st f =
     (if \<exists>c\<in>set (workingTreeChanges st). path (uri c) = path f
      then Inl (FileModified f) else Inr ())"
  unfolding failIfChangedFile_def by (rule changesLoop_iff)

theorem dirty_guard_compares_paths_only_witness:
  "failIfChangedFile
     \<lparr>remotes = [],
      workingTreeChanges =
        [\<lparr>uri = exampleFile ''/repo/src''\<rparr>, \<lparr>uri = exampleFile ''/repo/src/main.ts''\<rparr>,
         \<lparr>uri = exampleFile ''/repo/src/Main.tsx''\<rparr>],
      HEAD = None\<rparr>
     (exampleFile ''/repo/src/Main.ts'') = Inr ()
   \<and> failIfChangedFile
     \<lparr>remotes = [],
      workingTreeChanges =
        [\<lparr>uri = (exampleFile ''/repo/src/Main.ts'')\<lparr>scheme := ''git'', authority := ''host''\<rparr>\<rparr>],
      HEAD = None\<rparr>
     (exampleFile ''/repo/src/Main.ts'') = Inl (FileModified (exampleFile ''/repo/src/Main.ts''))"
  using dirty_guard_compares_paths_only
          [of "\<lparr>remotes = [],
      workingTreeChanges =
        [\<lparr>uri = exampleFile ''/repo/src''\<rparr>, \<lparr>uri = exampleFile ''/repo/src/main.ts''\<rparr>,
         \<lparr>uri = exampleFile ''/repo/src/Main.tsx''\<rparr>],
      HEAD = None\<rparr>" "exampleFile ''/repo/src/Main.ts''"]
        dirty_guard_compares_paths_only
          [of "\<lparr>remotes = [],
      workingTreeChanges =
        [\<lparr>uri = (exampleFile ''/repo/src/Main.ts'')\<lparr>scheme := ''git'', authority := ''host''\<rparr>\<rparr>],
      HEAD = None\<rparr>" "exampleFile ''/repo/src/Main.ts''"]
  by (simp add: exampleFile_def)

section \<open>Repository resolution over the remotes\<close>

lemma remotesLoop_none:
  "\<forall>r\<in>set rs. parseGithubUrl (if fetchUrl r = None then pushUrl r else fetchUrl r) = None
   \<Longrightarrow> remotesLoop repo rs = Inl NoGitHubRemote"
  by (induction rs) (auto split: option.splits)

lemma remotesLoop_first:
  "\<forall>q\<in>set before. parseGithubUrl (if fetchUrl q = None then pushUrl q else fetchUrl q) = None
   \<Longrightarrow> parseGithubUrl (if fetchUrl r = None then pushUrl r else fetchUrl r) = Some n
   \<Longrightarrow> remotesLoop repo (before @ r # after) =
         Inr \<lparr>organization = organization n, repository = repository n,
              info_rootUri = rootUri repo, info_state = state repo\<rparr>"
  by (induction before) (auto split: option.splits)

text \<open>
  C5. For the repository of the file, each remote is read through its fetch URL when it
  has one and through its push URL otherwise. If no remote parses (the list may be empty,
  a remote may have neither URL), resolution fails with \<open>NoGitHubRemote\<close>. If the remotes
  before \<open>r\<close> do not parse and \<open>r\<close> does, the organization and the repository are those of
  \<open>r\<close>, whatever follows \<open>r\<close> in the list.
\<close>

theorem repository_resolution_first_github_remote:
  assumes "getRepository git f = Some repo"
  shows "((\<forall>r\<in>set (remotes (state repo)).
            parseGithubUrl (if fetchUrl r = None then pushUrl r else fetchUrl r) = None)
          \<longrightarrow> getRepositoryInfo git f = Inl NoGitHubRemote)
       \<and> (remotes (state repo) = before @ r # after
          \<and> (\<forall>q\<in>set before.
                parseGithubUrl (if fetchUrl q = None then pushUrl q else fetchUrl q) = None)
          \<and> parseGithubUrl (if fetchUrl r = None then pushUrl r else fetchUrl r) = Some n
          \<longrightarrow> getRepositoryInfo git f =
                Inr \<lparr>organization = organization n, repository = repository n,
                     info_rootUri = rootUri repo, info_state = state repo\<rparr>)"
  using assms remotesLoop_none [of "remotes (state repo)" repo]
    remotesLoop_first [of before r n repo after]
  by (auto simp: getRepositoryInfo_def failIfNull_def)

theorem repository_resolution_first_github_remote_witness:
  "getRepositoryInfo
     (exampleGit [exampleRemote None None, exampleRemote (Some ''https://gitlab.com/a/b'') None]
        [] None)
     (exampleFile ''/repo/a.ts'') = Inl NoGitHubRemote
   \<and> getRepositoryInfo (exampleGit [] [] None) (exampleFile ''/repo/a.ts'') = Inl NoGitHubRemote
   \<and> getRepositoryInfo
     (exampleGit
        [exampleRemote None None,
         exampleRemote (Some ''https://gitlab.com/a/b'') (Some ''git@github.com:x/y.git''),
         exampleRemote None (Some ''git@github.com:foo/bar.git''),
         exampleRemote (Some ''https://github.com/late/comer'') None]
        [] None)
     (exampleFile ''/repo/a.ts'') =
       Inr \<lparr>organization = ''foo'', repository = ''bar'',
            info_rootUri = exampleFile ''/repo'',
            info_state =
              \<lparr>remotes =
                 [exampleRemote None None,
                  exampleRemote (Some ''https://gitlab.com/a/b'') (Some ''git@github.com:x/y.git''),
                  exampleRemote None (Some ''git@github.com:foo/bar.git''),
                  exampleRemote (Some ''https://github.com/late/comer'') None],
               workingTreeChanges = [], HEAD = None\<rparr>\<rparr>"
proof -
  have a: "parseGithubUrl None = None"
    by (simp add: parseGithubUrl_def)
  have b: "parseGithubUrl (Some ''https://gitlab.com/a/b'') = None"
    by (simp add: parse_eval)
  have c: "parseGithubUrl (Some ''git@github.com:foo/bar.git'') =
             Some \<lparr>organization = ''foo'', repository = ''bar''\<rparr>"
    by (simp add: parse_eval)
  show ?thesis
    using repository_resolution_first_github_remote
            [of "exampleGit [exampleRemote None None,
                   exampleRemote (Some ''https://gitlab.com/a/b'') None] [] None"
                "exampleFile ''/repo/a.ts''"
                "exampleRepository [exampleRemote None None,
                   exampleRemote (Some ''https://gitlab.com/a/b'') None] [] None"]
          repository_resolution_first_github_remote
            [of "exampleGit [] [] None" "exampleFile ''/repo/a.ts''"
                "exampleRepository [] [] None"]
          repository_resolution_first_github_remote
            [of "exampleGit
                   [exampleRemote None None,
                    exampleRemote (Some ''https://gitlab.com/a/b'') (Some ''git@github.com:x/y.git''),
                    exampleRemote None (Some ''git@github.com:foo/bar.git''),
                    exampleRemote (Some ''https://github.com/late/comer'') None] [] None"
                "exampleFile ''/repo/a.ts''"
                "exampleRepository
                   [exampleRemote None None,
                    exampleRemote (Some ''https://gitlab.com/a/b'') (Some ''git@github.com:x/y.git''),
                    exampleRemote None (Some ''git@github.com:foo/bar.git''),
                    exampleRemote (Some ''https://github.com/late/comer'') None] [] None"
                "[exampleRemote None None,
                  exampleRemote (Some ''https://gitlab.com/a/b'') (Some ''git@github.com:x/y.git'')]"
                "exampleRemote None (Some ''git@github.com:foo/bar.git'')"
                "[exampleRemote (Some ''https://github.com/late/comer'') None]"
                "\<lparr>organization = ''foo'', repository = ''bar''\<rparr>"]
          a b c
    by (simp add: exampleGit_def exampleRepository_def exampleRemote_def)
qed

section \<open>The commit hash\<close>

lemma getCommitHash_cases:
  "getCommitHash st =
     (case HEAD st of None \<Rightarrow> Inl NoCommitHash
      | Some b \<Rightarrow> (case commit b of None \<Rightarrow> Inl NoCommitHash | Some h \<Rightarrow> Inr h))"
  by (simp add: getCommitHash_def failIfUndefined_def NoCommitHash_def split: option.splits)

text \<open>
  C7. When repository resolution succeeds and the file is clean, a repository state
  without \<^verbatim>\<open>HEAD\<close>, or whose \<^verbatim>\<open>HEAD\<close> has no commit, makes the resolver fail with
  \<open>NoCommitHash\<close>. When \<^verbatim>\<open>HEAD\<close> has a commit, the commit-hash step returns that string
  as it is.
\<close>

theorem missing_commit_fails:
  "(getRepositoryInfo git (fileUri sel) = Inr info
      \<and> failIfChangedFile (info_state info) (fileUri sel) = Inr ()
      \<and> (HEAD (info_state info) = None
           \<or> (\<exists>b. HEAD (info_state info) = Some b \<and> commit b = None))
      \<longrightarrow> getLinkForSelection np git sel = Inl NoCommitHash)
   \<and> (HEAD st = Some b \<and> commit b = Some h \<longrightarrow> getCommitHash st = Inr h)"
  by (auto simp: getLinkForSelection_def getCommitHash_cases Let_def)

section \<open>The remote URL parser in closed form\<close>




lemma stripPrefix_Nil [simp]: "stripPrefix [] s = Some s"
  by (simp add: stripPrefix_def)

lemma stripPrefix_Cons:
  "stripPrefix (c # w) s = (case s of [] \<Rightarrow> None | x # xs \<Rightarrow> if x = c then stripPrefix w xs else None)"
  by (cases s) (auto simp: stripPrefix_def)























lemma stripPrefix_append [simp]: "stripPrefix w (w @ t) = Some t"
  by (simp add: stripPrefix_def)





lemma bodies_of_prefix:
  "sshBody (''git@github.com:'' @ t) = Some t"
  "sshBody (''ssh://git@github.com:'' @ t) = Some t"
  "sshBody (''https://github.com/'' @ t) = None"
  "sshBody (''http://github.com/'' @ t) = None"
  "httpBody (''https://github.com/'' @ t) = Some t"
  "httpBody (''http://github.com/'' @ t) = Some t"
  by (simp_all add: sshBody_def httpBody_def afterHost_def stripPrefix_Cons)



section \<open>What the parser returns\<close>







lemma parse_other_host_or_unanchored:
  "parseGithubUrl (Some ''https://gitlab.com/a/b'') = None"
  "parseGithubUrl (Some ''git@gitlab.com:a/b.git'') = None"
  "parseGithubUrl (Some ''see https://github.com/a/b'') = None"
  by (simp_all add: parse_eval)

text \<open>
  C6. A URL whose host is not \<^verbatim>\<open>github.com\<close> must not parse. The dot of
  \<^verbatim>\<open>github.com\<close> is not escaped in either pattern and matches any character, so the
  host \<^verbatim>\<open>github-com\<close> is accepted.
\<close>

theorem parse_accepts_other_host:
  "parseGithubUrl (Some ''https://github-com/a/b'') =
     Some \<lparr>organization = ''a'', repository = ''b''\<rparr>"
  by (simp add: parse_eval)

section \<open>Order of the guards\<close>

lemma example_info:
  "getRepositoryInfo
     (exampleGit [exampleRemote (Some ''git@github.com:foo/bar.git'') None] cs h) f =
   Inr (exampleInfo cs h)"
proof -
  have c: "parseGithubUrl (Some ''git@github.com:foo/bar.git'') =
             Some \<lparr>organization = ''foo'', repository = ''bar''\<rparr>"
    by (simp add: parse_eval)
  show ?thesis
    by (simp add: getRepositoryInfo_def failIfNull_def exampleGit_def exampleRepository_def
          exampleRemote_def exampleInfo_def c)
qed

theorem missing_commit_fails_witness:
  "getLinkForSelection (examplePath CHR ''/'')
     (exampleGit [exampleRemote (Some ''git@github.com:foo/bar.git'') None] [] None)
     (exampleSelection ''/repo/a.ts'' 0 0 True) = Inl NoCommitHash
   \<and> getLinkForSelection (examplePath CHR ''/'')
     (exampleGit [exampleRemote (Some ''git@github.com:foo/bar.git'') None] []
        (Some \<lparr>commit = None\<rparr>))
     (exampleSelection ''/repo/a.ts'' 0 0 True) = Inl NoCommitHash
   \<and> getCommitHash
       \<lparr>remotes = [], workingTreeChanges = [], HEAD = Some \<lparr>commit = Some ''abc123''\<rparr>\<rparr> =
     Inr ''abc123''"
  using
    missing_commit_fails
      [of "exampleGit [exampleRemote (Some ''git@github.com:foo/bar.git'') None] [] None"
          "exampleSelection ''/repo/a.ts'' 0 0 True" "exampleInfo [] None" "examplePath CHR ''/''"
          "\<lparr>remotes = [], workingTreeChanges = [], HEAD = Some \<lparr>commit = Some ''abc123''\<rparr>\<rparr>"
          "\<lparr>commit = Some ''abc123''\<rparr>" "''abc123''"]
    missing_commit_fails
      [of "exampleGit [exampleRemote (Some ''git@github.com:foo/bar.git'') None] []
             (Some \<lparr>commit = None\<rparr>)"
          "exampleSelection ''/repo/a.ts'' 0 0 True" "exampleInfo [] (Some \<lparr>commit = None\<rparr>)"
          "examplePath CHR ''/''"
          "\<lparr>remotes = [], workingTreeChanges = [], HEAD = Some \<lparr>commit = Some ''abc123''\<rparr>\<rparr>"
          "\<lparr>commit = Some ''abc123''\<rparr>" "''abc123''"]
  by (simp add: example_info failIfChangedFile_def exampleSelection_def exampleInfo_def)

lemma remotesLoop_withHEAD:
  "remotesLoop (r\<lparr>state := (state r)\<lparr>HEAD := h\<rparr>\<rparr>) rs =
     (case remotesLoop r rs of
        Inl e \<Rightarrow> Inl e
      | Inr i \<Rightarrow> Inr (i\<lparr>info_state := (info_state i)\<lparr>HEAD := h\<rparr>\<rparr>))"
  by (induction rs) (auto split: option.splits)

lemma getRepositoryInfo_withHEAD:
  "getRepositoryInfo (withHEAD h git) f =
     (case getRepositoryInfo git f of
        Inl e \<Rightarrow> Inl e
      | Inr i \<Rightarrow> Inr (i\<lparr>info_state := (info_state i)\<lparr>HEAD := h\<rparr>\<rparr>))"
  by (simp add: getRepositoryInfo_def withHEAD_def failIfNull_def remotesLoop_withHEAD
        split: option.splits)

text \<open>
  C4, as the code has it. When repository resolution succeeds and some working-tree change
  has the path of the selected file, the resolver fails with \<open>FileModified\<close>, whose
  message holds the path of the file. The result is the same for every \<^verbatim>\<open>HEAD\<close>: the
  guard fails before the commit hash is looked up.
\<close>

theorem dirty_file_fails_before_commit_lookup:
  assumes "getRepositoryInfo git (fileUri sel) = Inr info"
    and "\<exists>c\<in>set (workingTreeChanges (info_state info)). path (uri c) = path (fileUri sel)"
  shows "getLinkForSelection np git sel = Inl (FileModified (fileUri sel))
       \<and> getLinkForSelection np (withHEAD h git) sel = Inl (FileModified (fileUri sel))"
  using assms
  by (auto simp: getLinkForSelection_def getRepositoryInfo_withHEAD failIfChangedFile_def
        changesLoop_iff)

theorem dirty_file_fails_before_commit_lookup_witness:
  "getLinkForSelection (examplePath CHR ''/'')
     (exampleGit [exampleRemote (Some ''git@github.com:foo/bar.git'') None]
        [\<lparr>uri = exampleFile ''/repo/a.ts''\<rparr>] (Some \<lparr>commit = Some ''abc123''\<rparr>))
     (exampleSelection ''/repo/a.ts'' 0 0 True) = Inl (FileModified (exampleFile ''/repo/a.ts''))
   \<and> getLinkForSelection (examplePath CHR ''/'')
     (withHEAD None
        (exampleGit [exampleRemote (Some ''git@github.com:foo/bar.git'') None]
           [\<lparr>uri = exampleFile ''/repo/a.ts''\<rparr>] (Some \<lparr>commit = Some ''abc123''\<rparr>)))
     (exampleSelection ''/repo/a.ts'' 0 0 True) = Inl (FileModified (exampleFile ''/repo/a.ts''))"
  using
    dirty_file_fails_before_commit_lookup
      [of "exampleGit [exampleRemote (Some ''git@github.com:foo/bar.git'') None]
             [\<lparr>uri = exampleFile ''/repo/a.ts''\<rparr>] (Some \<lparr>commit = Some ''abc123''\<rparr>)"
          "exampleSelection ''/repo/a.ts'' 0 0 True"
          "exampleInfo [\<lparr>uri = exampleFile ''/repo/a.ts''\<rparr>] (Some \<lparr>commit = Some ''abc123''\<rparr>)"
          "examplePath CHR ''/''" None]
  by (simp add: example_info exampleSelection_def exampleInfo_def)

text \<open>
  Repository resolution comes first: in a repository without a GitHub remote, a modified
  file gives \<open>NoGitHubRemote\<close>, so the claim of C4 as it is written fails.
\<close>

theorem dirty_file_without_remote_counterexample:
  "getLinkForSelection (examplePath CHR ''/'')
     (exampleGit [] [\<lparr>uri = exampleFile ''/repo/a.ts''\<rparr>] (Some \<lparr>commit = Some ''abc123''\<rparr>))
     (exampleSelection ''/repo/a.ts'' 0 0 True) = Inl NoGitHubRemote
   \<and> NoGitHubRemote \<noteq> FileModified (exampleFile ''/repo/a.ts'')"
  by (simp add: getLinkForSelection_def getRepositoryInfo_def failIfNull_def exampleGit_def
        exampleRepository_def NoGitHubRemote_def FileModified_def)

section \<open>The permalink URL\<close>

lemma numberToString_digits: "set (numberToString n) \<subseteq> set ''0123456789''"
proof (induction n rule: numberToString.induct)
  case (1 n)
  show ?case
  proof (cases "n < 10")
    case True
    then have "''0123456789'' ! n \<in> set ''0123456789''"
      by (intro nth_mem) simp
    then show ?thesis using True by (subst numberToString.simps) simp
  next
    case False
    have "n mod 10 < 10" by simp
    then have "''0123456789'' ! (n mod 10) \<in> set ''0123456789''"
      by (intro nth_mem) simp
    then show ?thesis using False "1.IH"
      by (subst numberToString.simps) simp
  qed
qed

lemma number_chars: "set (numberToString n) \<subseteq> set ''L-0123456789''"
proof -
  have "set ''0123456789'' \<subseteq> set ''L-0123456789''" by (simp add: subset_insertI2)
  with numberToString_digits [of n] show ?thesis by (rule subset_trans)
qed

lemma anchor_chars: "set (getLineAnchor sel) \<subseteq> set ''L-0123456789''"
proof -
  have l: "set ''L'' \<subseteq> set ''L-0123456789''" and m: "set ''-L'' \<subseteq> set ''L-0123456789''"
    by simp_all
  show ?thesis
  proof (cases "isSingleLine sel")
    case True
    then have "getLineAnchor sel = ''L'' @ numberToString (startLine sel + 1)"
      by (simp add: getLineAnchor_def)
    then show ?thesis
      using l number_chars [of "startLine sel + 1"] by (simp only: set_append Un_subset_iff) 
  next
    case False
    then have "getLineAnchor sel = ''L'' @ numberToString (startLine sel + 1) @ ''-L''
                 @ numberToString (endLine sel + 1)"
      by (simp add: getLineAnchor_def)
    then show ?thesis
      using l m number_chars [of "startLine sel + 1"] number_chars [of "endLine sel + 1"]
      by (simp only: set_append Un_subset_iff)
  qed
qed

lemma fragment_char_plain:
  "c \<in> set ''L-0123456789'' \<Longrightarrow>
     utf8PercentEncode fragmentPercentEncodeSet c = [c]
     \<and> c \<notin> set [CHR 0x09, CHR 0x0A, CHR 0x0D]"
  by (auto simp: utf8PercentEncode_def fragmentPercentEncodeSet_def c0ControlPercentEncodeSet_def
        code_def)

lemma fragment_plain:
  "set v \<subseteq> set ''L-0123456789'' \<Longrightarrow>
     concat (map (utf8PercentEncode fragmentPercentEncodeSet) (removeTabNewline v)) = v"
proof (induction v)
  case Nil
  show ?case by (simp add: removeTabNewline_def)
next
  case (Cons c v)
  then have c: "c \<in> set ''L-0123456789''" and v: "set v \<subseteq> set ''L-0123456789''" by auto
  show ?case
    using fragment_char_plain [OF c] Cons.IH [OF v]
    by (simp add: removeTabNewline_def)
qed

lemma setHash_anchor:
  "setHash url (getLineAnchor sel) = url\<lparr>url_fragment := Some (getLineAnchor sel)\<rparr>"
proof -
  have "getLineAnchor sel \<noteq> []" "hd (getLineAnchor sel) \<noteq> CHR ''#''"
    by (simp_all add: getLineAnchor_def)
  then show ?thesis
    by (simp add: setHash_def fragment_plain [OF anchor_chars])
qed

lemma link_success:
  "getLinkForSelection np git sel = Inr url \<longleftrightarrow>
     (\<exists>info h. getRepositoryInfo git (fileUri sel) = Inr info
        \<and> failIfChangedFile (info_state info) (fileUri sel) = Inr ()
        \<and> getCommitHash (info_state info) = Inr h
        \<and> url = \<lparr>url_scheme = ''https'', url_host = ''github.com'',
                  url_path = pathStartState (removeTabNewline
                    (''/'' @ join ''/''
                       ([organization info, repository info, ''blob'', h]
                        @ split (sep np)
                            (relative np (fsPath (info_rootUri info)) (fsPath (fileUri sel)))))),
                  url_fragment = Some (getLineAnchor sel)\<rparr>)"
  by (auto simp: getLinkForSelection_def Let_def setHash_anchor setPathname_def newURL_github_def
        split: sum.splits)

text \<open>
  C10. Whenever a permalink is produced, its fragment is \<open>L\<close> and the start line plus
  one when \<open>isSingleLine\<close> holds, whatever the end line, and otherwise \<open>L\<close>, the start
  line plus one, \<open>-L\<close> and the end line plus one, also when the two lines are equal.
  The serialised URL ends with \<open>#\<close> and that fragment.
\<close>

theorem anchor_follows_single_line_flag:
  assumes "getLinkForSelection np git sel = Inr url"
  shows "url_fragment url =
           Some (if isSingleLine sel then ''L'' @ numberToString (startLine sel + 1)
                 else ''L'' @ numberToString (startLine sel + 1) @ ''-L''
                        @ numberToString (endLine sel + 1))
       \<and> (\<exists>p. href url =
              p @ ''#'' @ (if isSingleLine sel then ''L'' @ numberToString (startLine sel + 1)
                           else ''L'' @ numberToString (startLine sel + 1) @ ''-L''
                                  @ numberToString (endLine sel + 1)))"
  using assms unfolding link_success
  by (auto simp: href_def getLineAnchor_def)

lemma split_nonempty: "split s cs \<noteq> []"
  by (induction cs) (auto split: list.splits)

lemma split_no_sep: "s \<notin> set b \<Longrightarrow> split s b = [b]"
  by (induction b) auto

lemma split_append_sep: "s \<notin> set b \<Longrightarrow> split s (b @ s # cs) = b # split s cs"
  by (induction b) auto

lemma join_Cons: "ws \<noteq> [] \<Longrightarrow> join t (w # ws) = w @ t @ join t ws"
  by (cases ws) auto

lemma join_split: "join [t] (split s cs) = map (\<lambda>c. if c = s then t else c) cs"
proof (induction cs)
  case Nil
  show ?case by simp
next
  case (Cons c cs)
  obtain w ws where w: "split s cs = w # ws"
    using split_nonempty [of s cs] by (cases "split s cs") auto
  show ?case
  proof (cases "c = s")
    case True
    then show ?thesis using Cons.IH w by simp
  next
    case False
    have "join [t] ((c # w) # ws) = c # join [t] (w # ws)" by (cases ws) auto
    then show ?thesis using False Cons.IH w by simp
  qed
qed

lemma serializePath_append: "serializePath (p @ q) = serializePath p @ serializePath q"
  by (simp add: serializePath_def)

lemma pathState_plain:
  assumes "list_all (\<lambda>c. \<not> pathPercentEncodeSet c \<and> c \<noteq> CHR 0x5C) cs"
    and "CHR ''/'' \<notin> set b"
    and "list_all (\<lambda>b. \<not> singleDotSegment b \<and> \<not> doubleDotSegment b) (split CHR ''/'' (b @ cs))"
  shows "serializePath (pathState cs b p) = serializePath p @ ''/'' @ b @ cs"
  using assms
proof (induction cs arbitrary: b p)
  case Nil
  then have "\<not> singleDotSegment b \<and> \<not> doubleDotSegment b"
    by (simp add: split_no_sep)
  then show ?case by (simp add: endSegment_def serializePath_def)
next
  case (Cons c cs)
  show ?case
  proof (cases "c = CHR ''/''")
    case True
    have s: "split CHR ''/'' (b @ c # cs) = b # split CHR ''/'' cs"
      using Cons.prems(2) True by (simp add: split_append_sep)
    then have d: "\<not> singleDotSegment b \<and> \<not> doubleDotSegment b"
      and r: "list_all (\<lambda>b. \<not> singleDotSegment b \<and> \<not> doubleDotSegment b) (split CHR ''/'' ([] @ cs))"
      using Cons.prems(3) by simp_all
    have e: "endSegment True b p = p @ [b]" using d by (simp add: endSegment_def)
    have "serializePath (pathState cs [] (p @ [b])) = serializePath (p @ [b]) @ ''/'' @ [] @ cs"
      using Cons.prems(1) r by (intro Cons.IH) simp_all
    then show ?thesis using True e by (simp add: serializePath_def)
  next
    case False
    have c: "\<not> pathPercentEncodeSet c" "c \<noteq> CHR 0x5C" using Cons.prems(1) by simp_all
    have "serializePath (pathState cs (b @ [c]) p) = serializePath p @ ''/'' @ (b @ [c]) @ cs"
      using Cons.prems False by (intro Cons.IH) simp_all
    then show ?thesis using False c by (simp add: utf8PercentEncode_def)
  qed
qed

lemma plain_no_tab_newline:
  assumes "list_all (\<lambda>c. \<not> pathPercentEncodeSet c \<and> c \<noteq> CHR 0x5C) p"
  shows "removeTabNewline p = p"
proof -
  have t: "c0ControlPercentEncodeSet (CHR 0x09)" "c0ControlPercentEncodeSet (CHR 0x0A)"
    "c0ControlPercentEncodeSet (CHR 0x0D)"
    by (simp_all add: c0ControlPercentEncodeSet_def code_def)
  have m: "c \<notin> set [CHR 0x09, CHR 0x0A, CHR 0x0D]" if "\<not> pathPercentEncodeSet c" for c
  proof
    assume "c \<in> set [CHR 0x09, CHR 0x0A, CHR 0x0D]"
    then have "c = CHR 0x09 \<or> c = CHR 0x0A \<or> c = CHR 0x0D"
      by simp
    then have "c0ControlPercentEncodeSet c" using t by blast
    then show False using that
      by (simp only: pathPercentEncodeSet_def queryPercentEncodeSet_def) blast
  qed
  show ?thesis
    using assms unfolding removeTabNewline_def
    by (induction p) (simp_all add: m del: set_simps)
qed

lemma plainPath_serialize:
  assumes "plainPath (''/'' @ q)"
  shows "serializePath (pathStartState (removeTabNewline (''/'' @ q))) = ''/'' @ q"
proof -
  from assms have a: "list_all (\<lambda>c. \<not> pathPercentEncodeSet c \<and> c \<noteq> CHR 0x5C) (''/'' @ q)"
    and d: "list_all (\<lambda>b. \<not> singleDotSegment b \<and> \<not> doubleDotSegment b) (split CHR ''/'' (''/'' @ q))"
    by (simp_all add: plainPath_def)
  have r: "removeTabNewline (''/'' @ q) = ''/'' @ q" using a by (rule plain_no_tab_newline)
  have "serializePath (pathState q [] []) = serializePath [] @ ''/'' @ [] @ q"
    using a d by (intro pathState_plain) simp_all
  then show ?thesis unfolding r by (simp add: serializePath_def)
qed

lemma href_of_link:
  assumes "getLinkForSelection np git sel = Inr url"
  shows "\<exists>info h. getRepositoryInfo git (fileUri sel) = Inr info
        \<and> failIfChangedFile (info_state info) (fileUri sel) = Inr ()
        \<and> getCommitHash (info_state info) = Inr h
        \<and> href url = ''https://github.com''
             @ serializePath (urlPathOf (''/'' @ join ''/''
                  ([organization info, repository info, ''blob'', h]
                   @ split (sep np)
                       (relative np (fsPath (info_rootUri info)) (fsPath (fileUri sel))))))
             @ ''#'' @ getLineAnchor sel"
  using assms unfolding link_success
  by (auto simp: href_def serializePath_def urlPathOf_def)

lemma join_tokens:
  "segs \<noteq> [] \<Longrightarrow>
     join ''/'' ([a, b, c, d] @ segs) = a @ ''/'' @ b @ ''/'' @ c @ ''/'' @ d @ ''/'' @ join ''/'' segs"
  by (cases segs) auto

text \<open>
  C1, as the code has it. For a resolved repository, a clean file and a \<^verbatim>\<open>HEAD\<close> with
  commit \<open>h\<close>, take the path built from organization, repository, \<open>blob\<close>, \<open>h\<close> and the
  segments of the relative path. When no character of it is in the path percent-encode
  set or is a backslash, and none of its pieces between slashes is a dot segment
  (\<open>.\<close>, \<open>..\<close>, or one of \<open>%2e\<close>, \<open>.%2e\<close>, \<open>%2e.\<close>, \<open>%2e%2e\<close> in either letter
  case), the serialised permalink is exactly
  \<^verbatim>\<open>https://github.com/<org>/<repo>/blob/<h>/s1/.../sn\<close> followed by \<open>#L\<close> and the
  start line plus one, or by that, \<open>-L\<close> and the end line plus one.
\<close>

theorem permalink_of_plain_path:
  assumes "getRepositoryInfo git (fileUri sel) = Inr info"
    and "\<forall>c\<in>set (workingTreeChanges (info_state info)). path (uri c) \<noteq> path (fileUri sel)"
    and "HEAD (info_state info) = Some b" and "commit b = Some h"
    and "split (sep np) (relative np (fsPath (info_rootUri info)) (fsPath (fileUri sel))) = segs"
    and "plainPath (''/'' @ join ''/'' ([organization info, repository info, ''blob'', h] @ segs))"
  shows "\<exists>url. getLinkForSelection np git sel = Inr url
       \<and> href url =
           ''https://github.com/'' @ organization info @ ''/'' @ repository info @ ''/blob/'' @ h
             @ ''/'' @ join ''/'' segs @ ''#''
             @ (if isSingleLine sel then ''L'' @ numberToString (startLine sel + 1)
                else ''L'' @ numberToString (startLine sel + 1) @ ''-L''
                       @ numberToString (endLine sel + 1))"
proof -
  define p where "p = ''/'' @ join ''/'' ([organization info, repository info, ''blob'', h] @ segs)"
  define url where "url = \<lparr>url_scheme = ''https'', url_host = ''github.com'',
      url_path = pathStartState (removeTabNewline p), url_fragment = Some (getLineAnchor sel)\<rparr>"
  have clean: "failIfChangedFile (info_state info) (fileUri sel) = Inr ()"
    using assms(2) by (simp add: failIfChangedFile_def changesLoop_iff)
  have hash: "getCommitHash (info_state info) = Inr h"
    using assms(3,4) by (simp add: getCommitHash_cases)
  have link: "getLinkForSelection np git sel = Inr url"
    unfolding link_success url_def p_def using assms(1,5) clean hash by auto
  have segs: "segs \<noteq> []" using assms(5) split_nonempty by auto
  have ser: "serializePath (pathStartState (removeTabNewline p)) = p"
    using assms(6) unfolding p_def by (rule plainPath_serialize)
  have "href url = ''https://github.com'' @ p @ ''#'' @ getLineAnchor sel"
    using ser by (simp add: href_def url_def serializePath_def)
  then have "href url =
           ''https://github.com/'' @ organization info @ ''/'' @ repository info @ ''/blob/'' @ h
             @ ''/'' @ join ''/'' segs @ ''#''
             @ (if isSingleLine sel then ''L'' @ numberToString (startLine sel + 1)
                else ''L'' @ numberToString (startLine sel + 1) @ ''-L''
                       @ numberToString (endLine sel + 1))"
    unfolding p_def join_tokens [OF segs] by (simp add: getLineAnchor_def)
  with link show ?thesis by blast
qed

lemma pathState_backslash:
  "pathState (map backslashToSlash cs) b p = pathState cs b p"
  by (induction cs arbitrary: b p) (auto simp: backslashToSlash_def)

lemma removeTabNewline_backslash:
  "removeTabNewline (map backslashToSlash v) = map backslashToSlash (removeTabNewline v)"
  by (induction v) (auto simp: removeTabNewline_def backslashToSlash_def)

lemma urlPathOf_backslash: "urlPathOf (map backslashToSlash v) = urlPathOf v"
proof -
  have "pathStartState (map backslashToSlash w) = pathStartState w" for w
    using pathState_backslash [of "tl w" "[]" "[]"] pathState_backslash [of w "[]" "[]"]
    by (cases w) (auto simp: backslashToSlash_def)
  then show ?thesis by (simp add: urlPathOf_def removeTabNewline_backslash)
qed

lemma urlPathOf_cong:
  "map backslashToSlash v = map backslashToSlash w \<Longrightarrow> urlPathOf v = urlPathOf w"
  using urlPathOf_backslash [of v] urlPathOf_backslash [of w] by simp

lemma path_string:
  "''/'' @ join ''/'' ([a, b, c, d] @ split s rel) =
     ''/'' @ a @ ''/'' @ b @ ''/'' @ c @ ''/'' @ d @ ''/''
       @ map (\<lambda>x. if x = s then CHR ''/'' else x) rel"
  using join_tokens [OF split_nonempty, of a b c d s rel] join_split [of "CHR ''/''" s rel]
  by simp

lemma path_string_backslash:
  assumes "s = CHR ''/'' \<or> s = CHR 0x5C"
  shows "map backslashToSlash (''/'' @ join ''/'' ([a, b, c, d] @ split s rel)) =
         map backslashToSlash (''/'' @ a @ ''/'' @ b @ ''/'' @ c @ ''/'' @ d @ ''/'' @ rel)"
  unfolding path_string using assms by (auto simp: backslashToSlash_def)

lemma hex_digit_no_backslash: "k < 16 \<Longrightarrow> ''0123456789ABCDEF'' ! k \<noteq> CHR 0x5C"
proof -
  assume "k < 16"
  then have "''0123456789ABCDEF'' ! k \<in> set ''0123456789ABCDEF''"
    by (intro nth_mem) simp
  then show ?thesis by auto
qed

lemma percentEncodeByte_no_backslash: "b < 256 \<Longrightarrow> CHR 0x5C \<notin> set (percentEncodeByte b)"
  using hex_digit_no_backslash [of "b div 16"] hex_digit_no_backslash [of "b mod 16"]
  by (simp add: percentEncodeByte_def less_mult_imp_div_less)

lemma utf8Bytes_bound: "b \<in> set (utf8Bytes c) \<Longrightarrow> b < 256"
proof -
  have "code c < 256" by (simp add: code_def)
  moreover have "code c div 64 < 4" using calculation by (simp add: less_mult_imp_div_less)
  moreover have "code c mod 64 < 64" by simp
  ultimately show "b \<in> set (utf8Bytes c) \<Longrightarrow> b < 256"
    by (auto simp: utf8Bytes_def split: if_splits)
qed

lemma utf8PercentEncode_no_backslash:
  "c \<noteq> CHR 0x5C \<Longrightarrow> CHR 0x5C \<notin> set (utf8PercentEncode S c)"
  using utf8Bytes_bound [of _ c] percentEncodeByte_no_backslash
  by (auto simp: utf8PercentEncode_def)

lemma endSegment_subset: "set (endSegment d b p) \<subseteq> set p \<union> {b, []}"
  by (auto simp: endSegment_def dest: in_set_butlastD)

lemma pathState_no_backslash:
  assumes "CHR 0x5C \<notin> set b" and "\<forall>s\<in>set p. CHR 0x5C \<notin> set s"
  shows "\<forall>s\<in>set (pathState cs b p). CHR 0x5C \<notin> set s"
  using assms
proof (induction cs arbitrary: b p)
  case Nil
  then show ?case using endSegment_subset [of False b p] by auto
next
  case (Cons c cs)
  show ?case
  proof (cases "c = CHR ''/'' \<or> c = CHR 0x5C")
    case True
    have "\<forall>s\<in>set (endSegment True b p). CHR 0x5C \<notin> set s"
      using Cons.prems endSegment_subset [of True b p] by auto
    then have "\<forall>s\<in>set (pathState cs [] (endSegment True b p)). CHR 0x5C \<notin> set s"
      by (intro Cons.IH) simp_all
    then show ?thesis using True by simp
  next
    case False
    then have "CHR 0x5C \<notin> set (b @ utf8PercentEncode pathPercentEncodeSet c)"
      using Cons.prems(1) utf8PercentEncode_no_backslash [of c pathPercentEncodeSet] by simp
    then have "\<forall>s\<in>set (pathState cs (b @ utf8PercentEncode pathPercentEncodeSet c) p).
                 CHR 0x5C \<notin> set s"
      using Cons.prems(2) by (intro Cons.IH) simp_all
    then show ?thesis using False by simp
  qed
qed

lemma serializePath_no_backslash:
  "\<forall>s\<in>set p. CHR 0x5C \<notin> set s \<Longrightarrow> CHR 0x5C \<notin> set (serializePath p)"
  by (induction p) (simp_all add: serializePath_def)

lemma urlPathOf_no_backslash: "CHR 0x5C \<notin> set (serializePath (urlPathOf v))"
proof -
  have e: "\<forall>s\<in>set (pathState cs [] []). CHR 0x5C \<notin> set s" for cs
    by (rule pathState_no_backslash) simp_all
  have "\<exists>cs. pathStartState w = pathState cs [] []" for w
  proof (cases w)
    case Nil
    show ?thesis unfolding Nil
      by (intro exI [of _ "[]"]) (simp only: pathStartState.simps)
  next
    case (Cons c cs)
    show ?thesis
    proof (cases "c = CHR ''/'' \<or> c = CHR 0x5C")
      case True
      then show ?thesis unfolding Cons
        by (intro exI [of _ cs]) (simp only: pathStartState.simps if_True)
    next
      case False
      then show ?thesis unfolding Cons
        by (intro exI [of _ "c # cs"]) (simp only: pathStartState.simps if_False)
    qed
  qed
  then obtain cs where "urlPathOf v = pathState cs [] []"
    unfolding urlPathOf_def by metis
  then show ?thesis using e [of cs] by (simp add: serializePath_no_backslash)
qed

lemma anchor_no_backslash: "CHR 0x5C \<notin> set (getLineAnchor sel)"
  using anchor_chars [of sel] by auto

lemma link_unfold:
  "getLinkForSelection np git sel =
     (case getRepositoryInfo git (fileUri sel) of
        Inl e \<Rightarrow> Inl e
      | Inr info \<Rightarrow>
          (case failIfChangedFile (info_state info) (fileUri sel) of
             Inl e \<Rightarrow> Inl e
           | Inr _ \<Rightarrow>
               (case getCommitHash (info_state info) of
                  Inl e \<Rightarrow> Inl e
                | Inr h \<Rightarrow> Inr (linkURL np info h sel))))"
  by (simp add: getLinkForSelection_def Let_def setHash_anchor setPathname_def newURL_github_def
        linkURL_def urlPathOf_def split: sum.splits)

lemma linkURL_separator:
  assumes "sep np = CHR ''/'' \<or> sep np = CHR 0x5C"
    and "sep np' = CHR ''/'' \<or> sep np' = CHR 0x5C"
    and "map backslashToSlash (relative np' (fsPath (info_rootUri info)) (fsPath (fileUri sel))) =
         map backslashToSlash (relative np (fsPath (info_rootUri info)) (fsPath (fileUri sel)))"
  shows "linkURL np' info h sel = linkURL np info h sel"
proof -
  define rel where "rel = relative np (fsPath (info_rootUri info)) (fsPath (fileUri sel))"
  define rel' where "rel' = relative np' (fsPath (info_rootUri info)) (fsPath (fileUri sel))"
  define P where "P = (\<lambda>s r. ''/'' @ join ''/''
                  ([organization info, repository info, ''blob'', h] @ split s r))"
  have "urlPathOf (P (sep np') rel') = urlPathOf (P (sep np) rel)"
  proof (rule urlPathOf_cong)
    have "map backslashToSlash (P (sep np') rel') =
            map backslashToSlash (''/'' @ organization info @ ''/'' @ repository info @ ''/''
              @ ''blob'' @ ''/'' @ h @ ''/'' @ rel')"
      unfolding P_def by (rule path_string_backslash [OF assms(2)])
    also have "\<dots> = map backslashToSlash (''/'' @ organization info @ ''/'' @ repository info
              @ ''/'' @ ''blob'' @ ''/'' @ h @ ''/'' @ rel)"
      using assms(3) unfolding rel_def rel'_def by simp
    also have "\<dots> = map backslashToSlash (P (sep np) rel)"
      unfolding P_def by (rule path_string_backslash [OF assms(1), symmetric])
    finally show "map backslashToSlash (P (sep np') rel') = map backslashToSlash (P (sep np) rel)" .
  qed
  then show ?thesis
    unfolding linkURL_def P_def rel_def rel'_def by simp
qed

lemma href_linkURL_no_backslash: "CHR 0x5C \<notin> set (href (linkURL np info h sel))"
proof -
  have "href (linkURL np info h sel) =
          ''https://github.com'' @ serializePath (url_path (linkURL np info h sel))
            @ ''#'' @ getLineAnchor sel"
    by (simp add: href_def serializePath_def linkURL_def)
  moreover have "CHR 0x5C \<notin> set (serializePath (url_path (linkURL np info h sel)))"
    by (simp add: linkURL_def urlPathOf_no_backslash)
  ultimately show ?thesis
    using anchor_no_backslash [of sel] by simp
qed

text \<open>
  C8. Whether the separator of the platform is the slash or the backslash, a permalink
  holds no backslash, it is the same permalink under either separator, and it is the
  permalink of the relative path with every backslash replaced by a slash.
\<close>

theorem permalink_uses_forward_slashes:
  assumes "sep np = CHR ''/'' \<or> sep np = CHR 0x5C"
    and "getLinkForSelection np git sel = Inr url"
  shows "CHR 0x5C \<notin> set (href url)
       \<and> getLinkForSelection (np\<lparr>sep := CHR ''/''\<rparr>) git sel = Inr url
       \<and> getLinkForSelection (np\<lparr>sep := CHR 0x5C\<rparr>) git sel = Inr url
       \<and> getLinkForSelection
           (np\<lparr>relative := (\<lambda>root file. map backslashToSlash (relative np root file))\<rparr>)
           git sel = Inr url"
proof -
  from assms(2) obtain info h where
    i: "getRepositoryInfo git (fileUri sel) = Inr info"
    and c: "failIfChangedFile (info_state info) (fileUri sel) = Inr ()"
    and g: "getCommitHash (info_state info) = Inr h"
    and u: "url = linkURL np info h sel"
    unfolding link_unfold by (auto split: sum.splits)
  have link: "getLinkForSelection np' git sel = Inr (linkURL np' info h sel)" for np'
    unfolding link_unfold by (simp add: i c g)
  have bb: "backslashToSlash (backslashToSlash x) = backslashToSlash x" for x
    by (simp add: backslashToSlash_def)
  have a: "linkURL (np\<lparr>sep := CHR ''/''\<rparr>) info h sel = url"
    unfolding u by (rule linkURL_separator [OF assms(1)]) simp_all
  have b: "linkURL (np\<lparr>sep := CHR 0x5C\<rparr>) info h sel = url"
    unfolding u by (rule linkURL_separator [OF assms(1)]) simp_all
  have d: "linkURL (np\<lparr>relative := (\<lambda>root file. map backslashToSlash (relative np root file))\<rparr>)
             info h sel = url"
    unfolding u using assms(1) by (intro linkURL_separator [OF assms(1)]) (simp_all add: bb)
  have "CHR 0x5C \<notin> set (href url)"
    unfolding u by (rule href_linkURL_no_backslash)
  then show ?thesis
    using link [of "np\<lparr>sep := CHR ''/''\<rparr>"] link [of "np\<lparr>sep := CHR 0x5C\<rparr>"]
      link [of "np\<lparr>relative := (\<lambda>root file. map backslashToSlash (relative np root file))\<rparr>"]
    unfolding a b d by simp
qed

lemma example_links:
  "getLinkForSelection (examplePath CHR ''/'')
     (exampleGit [exampleRemote (Some ''git@github.com:foo/bar.git'') None] [] exampleHead)
     (exampleSelection ''/repo/src/extension.ts'' 4 4 False) =
   Inr (exampleURL [''src'', ''extension.ts''] ''L5-L5'')"
  "getLinkForSelection (examplePath CHR ''/'')
     (exampleGit [exampleRemote (Some ''git@github.com:foo/bar.git'') None] [] exampleHead)
     (exampleSelection ''/repo/src/extension.ts'' 4 9 True) =
   Inr (exampleURL [''src'', ''extension.ts''] ''L5'')"
  "getLinkForSelection (examplePath (CHR 0x5C))
     (exampleGit [exampleRemote (Some ''git@github.com:foo/bar.git'') None] [] exampleHead)
     (exampleSelection exampleBackslashFile 4 4 True) =
   Inr (exampleURL [''src'', ''extension.ts''] ''L5'')"
  by code_simp+

lemma example_plain: "plainPath ''/foo/bar/blob/abc123/src/extension.ts''"
  by code_simp

text \<open>
  The claim of C1 as it is written fails in four ways: a selection from line 4 to line 9
  gives the fragment \<open>L5-L10\<close>, not \<open>L5-L9\<close>; a space in a path segment is written
  \<open>%20\<close> by the URL object; a percent-encoded dot segment is resolved and takes the
  commit hash away with it; and a backslash in a segment becomes a slash.
\<close>

theorem permalink_fragment_and_encoding_counterexample:
  "map_sum id href
     (getLinkForSelection (examplePath CHR ''/'')
        (exampleGit [exampleRemote (Some ''git@github.com:foo/bar.git'') None] [] exampleHead)
        (exampleSelection ''/repo/src/extension.ts'' 4 9 False)) =
     Inr ''https://github.com/foo/bar/blob/abc123/src/extension.ts#L5-L10''
   \<and> map_sum id href
     (getLinkForSelection (examplePath CHR ''/'')
        (exampleGit [exampleRemote (Some ''git@github.com:foo/bar.git'') None] [] exampleHead)
        (exampleSelection ''/repo/my file.ts'' 4 4 True)) =
     Inr ''https://github.com/foo/bar/blob/abc123/my%20file.ts#L5''
   \<and> map_sum id href
     (getLinkForSelection (examplePath CHR ''/'')
        (exampleGit [exampleRemote (Some ''git@github.com:foo/bar.git'') None] [] exampleHead)
        (exampleSelection ''/repo/%2e%2E/x.ts'' 0 0 True)) =
     Inr ''https://github.com/foo/bar/blob/x.ts#L1''
   \<and> map_sum id href
     (getLinkForSelection (examplePath CHR ''/'')
        (exampleGit [exampleRemote (Some ''git@github.com:foo/bar.git'') None] [] exampleHead)
        (exampleSelection (''/repo/a'' @ [CHR 0x5C] @ ''b.ts'') 0 0 True)) =
     Inr ''https://github.com/foo/bar/blob/abc123/a/b.ts#L1''"
  by code_simp

theorem permalink_of_plain_path_witness:
  "map_sum id href
     (getLinkForSelection (examplePath CHR ''/'')
        (exampleGit [exampleRemote (Some ''git@github.com:foo/bar.git'') None] [] exampleHead)
        (exampleSelection ''/repo/src/extension.ts'' 4 4 True)) =
     Inr ''https://github.com/foo/bar/blob/abc123/src/extension.ts#L5''"
proof -
  have n: "numberToString 5 = ''5''" by code_simp
  have s: "split CHR ''/'' ''src/extension.ts'' = [''src'', ''extension.ts'']" by code_simp
  show ?thesis
    using permalink_of_plain_path
      [where git = "exampleGit [exampleRemote (Some ''git@github.com:foo/bar.git'') None] []
                      exampleHead"
         and sel = "exampleSelection ''/repo/src/extension.ts'' 4 4 True"
         and info = "exampleInfo [] exampleHead"
         and b = "\<lparr>commit = Some ''abc123''\<rparr>" and h = "''abc123''"
         and np = "examplePath CHR ''/''" and segs = "[''src'', ''extension.ts'']"]
      example_plain
    by (auto simp: example_info exampleSelection_def exampleInfo_def exampleHead_def
          exampleFile_def examplePath_def n s)
qed

theorem anchor_follows_single_line_flag_witness:
  "url_fragment (exampleURL [''src'', ''extension.ts''] ''L5-L5'') = Some ''L5-L5''
   \<and> url_fragment (exampleURL [''src'', ''extension.ts''] ''L5'') = Some ''L5''
   \<and> getLinkForSelection (examplePath CHR ''/'')
       (exampleGit [exampleRemote (Some ''git@github.com:foo/bar.git'') None] [] exampleHead)
       (exampleSelection ''/repo/src/extension.ts'' 4 4 False) =
     Inr (exampleURL [''src'', ''extension.ts''] ''L5-L5'')
   \<and> getLinkForSelection (examplePath CHR ''/'')
       (exampleGit [exampleRemote (Some ''git@github.com:foo/bar.git'') None] [] exampleHead)
       (exampleSelection ''/repo/src/extension.ts'' 4 9 True) =
     Inr (exampleURL [''src'', ''extension.ts''] ''L5'')"
proof -
  have n: "numberToString 5 = ''5''" by code_simp
  show ?thesis
    using anchor_follows_single_line_flag [OF example_links(1)]
      anchor_follows_single_line_flag [OF example_links(2)] example_links(1,2)
    by (simp add: exampleSelection_def n)
qed

theorem permalink_uses_forward_slashes_witness:
  "getLinkForSelection (examplePath (CHR 0x5C))
     (exampleGit [exampleRemote (Some ''git@github.com:foo/bar.git'') None] [] exampleHead)
     (exampleSelection exampleBackslashFile 4 4 True) =
     Inr (exampleURL [''src'', ''extension.ts''] ''L5'')
   \<and> getLinkForSelection (examplePath CHR ''/'')
     (exampleGit [exampleRemote (Some ''git@github.com:foo/bar.git'') None] [] exampleHead)
     (exampleSelection exampleBackslashFile 4 4 True) =
     Inr (exampleURL [''src'', ''extension.ts''] ''L5'')
   \<and> href (exampleURL [''src'', ''extension.ts''] ''L5'') =
     ''https://github.com/foo/bar/blob/abc123/src/extension.ts#L5''
   \<and> CHR 0x5C \<notin> set (href (exampleURL [''src'', ''extension.ts''] ''L5''))"
proof -
  have h: "href (exampleURL [''src'', ''extension.ts''] ''L5'') =
             ''https://github.com/foo/bar/blob/abc123/src/extension.ts#L5''"
    by code_simp
  have s: "sep (examplePath (CHR 0x5C)) = CHR ''/'' \<or> sep (examplePath (CHR 0x5C)) = CHR 0x5C"
    by (simp add: examplePath_def)
  have e: "(examplePath (CHR 0x5C))\<lparr>sep := CHR ''/''\<rparr> = examplePath CHR ''/''"
    by (simp add: examplePath_def)
  show ?thesis
    using permalink_uses_forward_slashes [OF s example_links(3)] example_links(3) h
    unfolding e by simp
qed

end
